theory Spec2Isabelle
  imports Complex_Main "HOL-Library.Word"
begin

section \<open>The nutrition scanner's session protocol (package server)\<close>

text \<open>
  A shallow embedding of \<^verbatim>\<open>internal/server\<close>, \<^verbatim>\<open>internal/models\<close> and
  \<^verbatim>\<open>internal/database\<close>. Every handler is a function from the server state and the
  decoded message to the new state and the list of messages written to the connection.
  Logging is left out; so is an error of \<^verbatim>\<open>conn.WriteJSON\<close>, which the code logs and
  drops: the list holds what the handler passes to \<open>sendMessage\<close> and \<open>sendError\<close>.
  What the handlers obtain from outside the repository is passed in:
  \<^item> \<open>env\<close>: the library functions (base64 decoding, the UUID generator, the calendar
    functions of package \<^verbatim>\<open>time\<close>, the database driver's rendering of timestamps);
  \<^item> \<open>world\<close>: what one handler invocation observes of the outside (the clock, the
    Analyzer's answer, whether a database statement fails).
  A \<^verbatim>\<open>float64\<close> is modelled as a \<open>real\<close>: rounding, infinities and NaN are left out.
  A \<^verbatim>\<open>time.Time\<close> is an instant on the integer line (nanoseconds), which is all that
  \<^verbatim>\<open>After\<close> and \<^verbatim>\<open>IsZero\<close> look at.
\<close>

subsection \<open>Values\<close>

type_synonym bytes = "8 word list"
type_synonym time = int

text \<open>The zero \<^verbatim>\<open>time.Time\<close> (January 1, year 1, 00:00 UTC), in nanoseconds before the epoch.\<close>

definition zero_time :: time where
  "zero_time = - 62135596800000000000"

definition IsZero :: "time \<Rightarrow> bool" where
  "IsZero t = (t = zero_time)"

definition After :: "time \<Rightarrow> time \<Rightarrow> bool" where
  "After t u = (u < t)"

text \<open>
  What \<^verbatim>\<open>encoding/json\<close> puts into an \<^verbatim>\<open>any\<close>: nil, bool, float64, string, []any and
  map[string]any. A \<^verbatim>\<open>map[string]any\<close> is a map \<open>string \<rightharpoonup> json\<close>; an object nested in a
  value is kept as an association list and read with \<open>map_of\<close>.
\<close>

datatype json =
    JNull
  | JBool bool
  | JNumber real
  | JString string
  | JArray "json list"
  | JObject "(string \<times> json) list"

text \<open>The type assertions \<^verbatim>\<open>m[k].(string)\<close>, \<^verbatim>\<open>m[k].(float64)\<close> and \<^verbatim>\<open>m[k].(map[string]any)\<close>
  on the result of a map lookup; a missing key gives nil, on which every assertion fails.
  The failed assertion to a map leaves the nil map, which has no keys.\<close>

fun as_string :: "json option \<Rightarrow> string option" where
  "as_string (Some (JString s)) = Some s"
| "as_string _ = None"

fun as_float64 :: "json option \<Rightarrow> real option" where
  "as_float64 (Some (JNumber x)) = Some x"
| "as_float64 _ = None"

fun as_map :: "json option \<Rightarrow> (string \<rightharpoonup> json)" where
  "as_map (Some (JObject kvs)) = map_of kvs"
| "as_map _ = Map.empty"

subsection \<open>package models\<close>

record NutritionalInfo =
  ID :: string
  TotalWeight :: real
  Calories :: real
  Protein :: real
  Carbs :: real
  Fat :: real
  Fiber :: real
  Sugar :: real
  ImagePath :: string
  CreatedAt :: time
  UpdatedAt :: time

record NutritionScan =
  scan_ID :: string
  scan_ImageData :: bytes
  scan_Status :: string
  scan_Result :: "NutritionalInfo option"
  scan_Error :: string
  scan_CreatedAt :: time
  scan_UpdatedAt :: time

subsection \<open>package database\<close>

text \<open>
  The two tables of \<^verbatim>\<open>schema.sql\<close>, as lists of rows in insertion order; \<open>id\<close> is the
  primary key of both. A row of \<^verbatim>\<open>nutritional_info\<close> has the columns of
  \<open>NutritionalInfo\<close>; a row of \<^verbatim>\<open>nutrition_scans\<close> has no column for the result.
\<close>

record scan_row =
  row_id :: string
  row_image_data :: bytes
  row_status :: string
  row_error :: string
  row_created_at :: time
  row_updated_at :: time

record SQLiteDB =
  nutritional_info :: "NutritionalInfo list"
  nutrition_scans :: "scan_row list"

text \<open>\<^verbatim>\<open>INSERT ... ON CONFLICT(id) DO UPDATE SET\<close> every column but \<open>id\<close> and \<open>created_at\<close>.\<close>

fun upsert_info :: "NutritionalInfo \<Rightarrow> NutritionalInfo list \<Rightarrow> NutritionalInfo list" where
  "upsert_info info [] = [info]"
| "upsert_info info (r # rs) =
     (if ID r = ID info then info\<lparr>CreatedAt := CreatedAt r\<rparr> # rs
      else r # upsert_info info rs)"

text \<open>
  \<open>SaveNutritionalInfo\<close> and \<open>SaveScan\<close> return the error (\<open>True\<close>: the statement
  failed) and the database. Whether \<^verbatim>\<open>ExecContext\<close> fails is decided outside the program
  (\<open>fails\<close>); a failed statement leaves the tables as they were.
\<close>

definition SaveNutritionalInfo ::
  "bool \<Rightarrow> time \<Rightarrow> NutritionalInfo \<Rightarrow> SQLiteDB \<Rightarrow> bool \<times> SQLiteDB" where
  "SaveNutritionalInfo fails now info d =
     (let info1 = (if IsZero (CreatedAt info) then info\<lparr>CreatedAt := now\<rparr> else info);
          info2 = info1\<lparr>UpdatedAt := now\<rparr>
      in if fails then (True, d)
         else (False, d\<lparr>nutritional_info := upsert_info info2 (nutritional_info d)\<rparr>))"

definition row_of_scan :: "NutritionScan \<Rightarrow> scan_row" where
  "row_of_scan scan =
     \<lparr>row_id = scan_ID scan, row_image_data = scan_ImageData scan,
      row_status = scan_Status scan, row_error = scan_Error scan,
      row_created_at = scan_CreatedAt scan, row_updated_at = scan_UpdatedAt scan\<rparr>"

text \<open>\<^verbatim>\<open>INSERT OR REPLACE\<close>: a row with the same id is deleted, the new row is inserted.\<close>

definition SaveScan :: "bool \<Rightarrow> time \<Rightarrow> NutritionScan \<Rightarrow> SQLiteDB \<Rightarrow> bool \<times> SQLiteDB" where
  "SaveScan fails now scan d =
     (let scan1 = (if IsZero (scan_CreatedAt scan) then scan\<lparr>scan_CreatedAt := now\<rparr> else scan);
          scan2 = scan1\<lparr>scan_UpdatedAt := now\<rparr>
      in if fails then (True, d)
         else (False, d\<lparr>nutrition_scans :=
                 filter (\<lambda>r. row_id r \<noteq> scan_ID scan2) (nutrition_scans d) @ [row_of_scan scan2]\<rparr>))"

text \<open>
  \<^verbatim>\<open>SELECT ... ORDER BY created_at DESC LIMIT ?\<close>. The rows are ordered by their instant
  (rows of equal instant in some order, here the reverse of insertion). The timestamps
  come back as text and go through \<^verbatim>\<open>time.Parse(time.RFC3339, _)\<close> with the error
  dropped: \<open>parse_stored t\<close> is what that gives for a row written with instant \<open>t\<close>
  (the zero time when the driver's text is not RFC 3339).
\<close>

definition GetRecentNutritionalInfo ::
  "(time \<Rightarrow> time) \<Rightarrow> bool \<Rightarrow> nat \<Rightarrow> SQLiteDB \<Rightarrow> NutritionalInfo list option" where
  "GetRecentNutritionalInfo parse_stored fails limit d =
     (if fails then None
      else Some (map (\<lambda>r. r\<lparr>CreatedAt := parse_stored (CreatedAt r),
                             UpdatedAt := parse_stored (UpdatedAt r)\<rparr>)
                   (take limit (rev (sort_key CreatedAt (nutritional_info d))))))"

subsection \<open>package server: state, environment, outbound messages\<close>

text \<open>A value held by the \<^verbatim>\<open>sync.Map\<close> \<open>tempImageData\<close>: a \<^verbatim>\<open>[]byte\<close> or anything else.\<close>

datatype any_value = Bytes bytes | NotBytes

text \<open>
  The server: the database, the registry of live connections, the pending image data,
  and the number of identifiers that \<^verbatim>\<open>uuid.New()\<close> has handed out so far (the state
  of the generator, which the Go program keeps outside the struct).
\<close>

record Server =
  db :: SQLiteDB
  clients :: "string list"
  tempImageData :: "string \<rightharpoonup> any_value"
  uuid_calls :: nat

text \<open>
  The libraries:
  \<^item> \<open>DecodeString\<close>: \<^verbatim>\<open>base64.StdEncoding.DecodeString\<close>, \<open>None\<close> on a decoding error;
  \<^item> \<open>uuid_String\<close>: the identifier that the \<open>k\<close>-th call of \<^verbatim>\<open>uuid.New().String()\<close>
    returns; the generator's contract is that these are pairwise distinct
    (\<open>inj (uuid_String e)\<close>), which the theorems that need it assume;
  \<^item> \<open>Midnight\<close>: \<^verbatim>\<open>time.Date(t.Year(), t.Month(), t.Day(), 0, 0, 0, 0, t.Location())\<close>;
  \<^item> \<open>Weekday\<close>: \<^verbatim>\<open>int(t.Weekday())\<close>, Sunday is 0;
  \<^item> \<open>AddDays\<close>: \<^verbatim>\<open>t.AddDate(0, 0, n)\<close>;
  \<^item> \<open>parse_stored\<close>: see \<open>GetRecentNutritionalInfo\<close>.
\<close>

record env =
  DecodeString :: "string \<Rightarrow> bytes option"
  uuid_String :: "nat \<Rightarrow> string"
  Midnight :: "time \<Rightarrow> time"
  Weekday :: "time \<Rightarrow> int"
  AddDays :: "time \<Rightarrow> int \<Rightarrow> time"
  parse_stored :: "time \<Rightarrow> time"

text \<open>
  What one handler invocation observes: the clock (the readings of \<^verbatim>\<open>time.Now()\<close>
  within one invocation are taken to be one instant), the answer of
  \<^verbatim>\<open>model.ProcessImage\<close> (\<open>None\<close>: an error), and which database statements fail.
\<close>

record world =
  Now :: time
  ProcessImage :: "bytes \<Rightarrow> NutritionalInfo option"
  SaveNutritionalInfo_fails :: bool
  SaveScan_fails :: bool
  GetRecent_fails :: bool

record totals =
  total_Calories :: real
  total_Protein :: real
  total_Carbs :: real
  total_Fat :: real

datatype payload =
    Info NutritionalInfo
  | Nil
  | HistoryResponse "NutritionalInfo list" totals totals

text \<open>What is written to the connection: \<open>{type, data}\<close> or \<open>{type: "error", message}\<close>.\<close>

datatype outbound = Msg string payload | Err string

definition sendMessage :: "string \<Rightarrow> payload \<Rightarrow> outbound list" where
  "sendMessage messageType data = [Msg messageType data]"

definition sendError :: "string \<Rightarrow> outbound list" where
  "sendError message = [Err message]"

definition New :: "SQLiteDB \<Rightarrow> Server" where
  "New d = \<lparr>db = d, clients = [], tempImageData = Map.empty, uuid_calls = 0\<rparr>"

definition uuid_New :: "env \<Rightarrow> Server \<Rightarrow> string \<times> Server" where
  "uuid_New e s = (uuid_String e (uuid_calls s), s\<lparr>uuid_calls := Suc (uuid_calls s)\<rparr>)"

subsection \<open>handleScan\<close>

definition handleScan ::
  "env \<Rightarrow> world \<Rightarrow> Server \<Rightarrow> (string \<rightharpoonup> json) \<Rightarrow> Server \<times> outbound list" where
  "handleScan e w s data =
     (case as_string (data ''image'') of
        None \<Rightarrow> (s, sendError ''Invalid image data'')
      | Some imageStr \<Rightarrow>
     (case as_float64 (data ''totalWeight'') of
        None \<Rightarrow> (s, sendError ''Invalid weight value'')
      | Some totalWeight \<Rightarrow>
     (case DecodeString e imageStr of
        None \<Rightarrow> (s, sendError ''Invalid image format'')
      | Some imageData \<Rightarrow>
     (case ProcessImage w imageData of
        None \<Rightarrow> (s, sendError ''Failed to process image'')
      | Some nutritionInfo \<Rightarrow>
          (let (newID, s1) = uuid_New e s;
               info = nutritionInfo\<lparr>TotalWeight := totalWeight, ID := newID,
                                    CreatedAt := Now w, UpdatedAt := Now w\<rparr>;
               s2 = s1\<lparr>tempImageData := (tempImageData s1)(ID info \<mapsto> Bytes imageData)\<rparr>
           in (s2, sendMessage ''scan_result'' (Info info)))))))"

subsection \<open>handleGetHistory\<close>

definition zero_totals :: totals where
  "zero_totals = \<lparr>total_Calories = 0, total_Protein = 0, total_Carbs = 0, total_Fat = 0\<rparr>"

definition add_info :: "totals \<Rightarrow> NutritionalInfo \<Rightarrow> totals" where
  "add_info t info =
     \<lparr>total_Calories = total_Calories t + Calories info,
      total_Protein = total_Protein t + Protein info,
      total_Carbs = total_Carbs t + Carbs info,
      total_Fat = total_Fat t + Fat info\<rparr>"

text \<open>The loop "Calculate totals": the pair is \<open>(dayTotal, weekTotal)\<close>.\<close>

fun calculate_totals ::
  "time \<Rightarrow> time \<Rightarrow> NutritionalInfo list \<Rightarrow> totals \<times> totals \<Rightarrow> totals \<times> totals" where
  "calculate_totals startOfDay startOfWeek [] (dayTotal, weekTotal) = (dayTotal, weekTotal)"
| "calculate_totals startOfDay startOfWeek (info # rest) (dayTotal, weekTotal) =
     (if After (CreatedAt info) startOfWeek
      then calculate_totals startOfDay startOfWeek rest
             (if After (CreatedAt info) startOfDay then add_info dayTotal info else dayTotal,
              add_info weekTotal info)
      else calculate_totals startOfDay startOfWeek rest (dayTotal, weekTotal))"

definition handleGetHistory :: "env \<Rightarrow> world \<Rightarrow> Server \<Rightarrow> Server \<times> outbound list" where
  "handleGetHistory e w s =
     (case GetRecentNutritionalInfo (parse_stored e) (GetRecent_fails w) 20 (db s) of
        None \<Rightarrow> (s, sendError ''Failed to retrieve history'')
      | Some nutritionInfos \<Rightarrow>
          (let now = Now w;
               startOfDay = Midnight e now;
               startOfWeek = Midnight e (AddDays e now (- Weekday e now));
               (dayTotal, weekTotal) =
                  calculate_totals startOfDay startOfWeek nutritionInfos (zero_totals, zero_totals)
           in (s, sendMessage ''history'' (HistoryResponse nutritionInfos dayTotal weekTotal))))"

subsection \<open>handleConfirmScan\<close>

text \<open>\<^verbatim>\<open>if v, ok := data[k].(float64); ok { x = v } else { x = default }\<close>\<close>

definition float_or :: "(string \<rightharpoonup> json) \<Rightarrow> string \<Rightarrow> real \<Rightarrow> real" where
  "float_or data k dflt = (case as_float64 (data k) of Some v \<Rightarrow> v | None \<Rightarrow> dflt)"

definition handleConfirmScan ::
  "env \<Rightarrow> world \<Rightarrow> Server \<Rightarrow> (string \<rightharpoonup> json) \<Rightarrow> Server \<times> outbound list" where
  "handleConfirmScan e w s data =
     (case data ''id'' of
        None \<Rightarrow> (s, sendError ''Missing nutrition info ID'')
      | Some idv \<Rightarrow>
     (case as_string (Some idv) of
        None \<Rightarrow> (s, sendError ''Invalid nutrition info ID format'')
      | Some nutritionInfoID \<Rightarrow>
     (case tempImageData s nutritionInfoID of
        None \<Rightarrow> (s, sendError ''Image data not found'')
      | Some NotBytes \<Rightarrow> (s, sendError ''Invalid stored image data'')
      | Some (Bytes imageData) \<Rightarrow>
          (let s1 = s\<lparr>tempImageData := (tempImageData s)(nutritionInfoID := None)\<rparr>;
               nutritionInfo =
                 \<lparr>ID = nutritionInfoID,
                  TotalWeight = float_or data ''total_weight'' 100,
                  Calories = float_or data ''calories'' 0,
                  Protein = float_or data ''protein'' 0,
                  Carbs = float_or data ''carbs'' 0,
                  Fat = float_or data ''fat'' 0,
                  Fiber = float_or data ''fiber'' 0,
                  Sugar = float_or data ''sugar'' 0,
                  ImagePath = '''',
                  CreatedAt = Now w, UpdatedAt = Now w\<rparr>;
               (err1, d1) = SaveNutritionalInfo (SaveNutritionalInfo_fails w) (Now w)
                              nutritionInfo (db s1)
           in if err1 then (s1\<lparr>db := d1\<rparr>, sendError ''Failed to save results'')
              else
                (let (newID, s2) = uuid_New e (s1\<lparr>db := d1\<rparr>);
                     scan = \<lparr>scan_ID = newID, scan_ImageData = imageData,
                             scan_Status = ''completed'',
                             scan_Result = Some nutritionInfo,
                             scan_Error = '''',
                             scan_CreatedAt = Now w, scan_UpdatedAt = Now w\<rparr>;
                     (err2, d2) = SaveScan (SaveScan_fails w) (Now w) scan (db s2)
                 in if err2 then (s2\<lparr>db := d2\<rparr>, sendError ''Failed to save scan'')
                    else (s2\<lparr>db := d2\<rparr>, sendMessage ''scan_saved'' Nil))))))"

subsection \<open>handleWebSocketMessage and the connection loop\<close>

definition handleWebSocketMessage ::
  "env \<Rightarrow> world \<Rightarrow> Server \<Rightarrow> (string \<rightharpoonup> json) \<Rightarrow> Server \<times> outbound list" where
  "handleWebSocketMessage e w s message =
     (case as_string (message ''type'') of
        None \<Rightarrow> (s, sendError ''Invalid message format'')
      | Some messageType \<Rightarrow>
          (let data = as_map (message ''data'')
           in if messageType = ''scan'' then handleScan e w s data
              else if messageType = ''confirm_scan'' then handleConfirmScan e w s data
              else if messageType = ''get_history'' then handleGetHistory e w s
              else (s, sendError ''Unknown message type'')))"

text \<open>
  What \<^verbatim>\<open>conn.ReadMessage\<close> followed by \<^verbatim>\<open>json.Unmarshal\<close> gives the loop: a read error,
  a frame that does not parse into a \<^verbatim>\<open>map[string]any\<close>, or the parsed map.
\<close>

datatype frame = ReadError | Unparseable | Parsed "(string \<times> json) list"

datatype conn_state = Reading | Closed

text \<open>
  The \<^verbatim>\<open>for\<close> loop of \<open>handleWebSocket\<close> on the frames that arrive, each with what its
  handler observes. The loop ends at a read error; when the frames run out it is still
  blocked in \<^verbatim>\<open>ReadMessage\<close>.
\<close>

fun readLoop ::
  "env \<Rightarrow> Server \<Rightarrow> (frame \<times> world) list \<Rightarrow> Server \<times> outbound list \<times> conn_state" where
  "readLoop e s [] = (s, [], Reading)"
| "readLoop e s ((ReadError, w) # rest) = (s, [], Closed)"
| "readLoop e s ((Unparseable, w) # rest) = readLoop e s rest"
| "readLoop e s ((Parsed msg, w) # rest) =
     (let (s1, out) = handleWebSocketMessage e w s (map_of msg);
          (s2, outs, st) = readLoop e s1 rest
      in (s2, out @ outs, st))"

text \<open>One connection, after a successful upgrade: register, loop, and deregister (the
  deferred \<^verbatim>\<open>clients.Delete\<close>) when the loop has ended.\<close>

definition register :: "env \<Rightarrow> Server \<Rightarrow> string \<times> Server" where
  "register e s =
     (let (clientID, s1) = uuid_New e s in (clientID, s1\<lparr>clients := clientID # clients s1\<rparr>))"

definition deregister :: "string \<Rightarrow> Server \<Rightarrow> Server" where
  "deregister clientID s = s\<lparr>clients := removeAll clientID (clients s)\<rparr>"

definition handleWebSocket ::
  "env \<Rightarrow> Server \<Rightarrow> (frame \<times> world) list \<Rightarrow> Server \<times> outbound list \<times> conn_state" where
  "handleWebSocket e s frames =
     (let (clientID, s1) = register e s;
          (s2, outs, st) = readLoop e s1 frames
      in if st = Closed then (deregister clientID s2, outs, st) else (s2, outs, st))"

subsection \<open>Runs of the server\<close>

text \<open>
  Several connections share one server. With each handler invocation taken as one step,
  what the server does is a sequence of events: a connection is opened, a connection is
  closed, or a parsed message of some connection is handled. \<open>run\<close> gives the state
  after the events and everything written to any connection, in order.
\<close>

datatype event = Connect | Disconnect string | Receive "(string \<times> json) list" world

fun step :: "env \<Rightarrow> Server \<Rightarrow> event \<Rightarrow> Server \<times> outbound list" where
  "step e s Connect = (snd (register e s), [])"
| "step e s (Disconnect clientID) = (deregister clientID s, [])"
| "step e s (Receive msg w) = handleWebSocketMessage e w s (map_of msg)"

fun run :: "env \<Rightarrow> Server \<Rightarrow> event list \<Rightarrow> Server \<times> outbound list" where
  "run e s [] = (s, [])"
| "run e s (ev # evs) =
     (let (s1, out) = step e s ev;
          (s2, outs) = run e s1 evs
      in (s2, out @ outs))"

text \<open>The identifiers that the \<open>scan_result\<close> messages of an output carry.\<close>

fun issued_ids :: "outbound list \<Rightarrow> string list" where
  "issued_ids [] = []"
| "issued_ids (Msg t (Info info) # outs) =
     (if t = ''scan_result'' then ID info # issued_ids outs else issued_ids outs)"
| "issued_ids (_ # outs) = issued_ids outs"

text \<open>\<^verbatim>\<open>SELECT ... FROM nutritional_info WHERE id = ?\<close>\<close>

definition GetNutritionalInfo :: "string \<Rightarrow> SQLiteDB \<Rightarrow> NutritionalInfo option" where
  "GetNutritionalInfo i d = find (\<lambda>r. ID r = i) (nutritional_info d)"

subsection \<open>A concrete environment\<close>

text \<open>
  An instance of the libraries, for evaluating the handlers: the server's zone is UTC
  (the epoch was a Thursday), one base64 string is known to the decoder, the \<open>k\<close>-th
  identifier is \<open>k\<close> letters long.
\<close>

definition day_ns :: int where
  "day_ns = 86400000000000"

definition utc_env :: env where
  "utc_env =
     \<lparr>DecodeString = (\<lambda>s. if s = ''aGk='' then Some [104, 105] else None),
      uuid_String = (\<lambda>k. replicate k (CHR ''u'')),
      Midnight = (\<lambda>t. t - t mod day_ns),
      Weekday = (\<lambda>t. (t div day_ns + 4) mod 7),
      AddDays = (\<lambda>t n. t + n * day_ns),
      parse_stored = (\<lambda>t. t)\<rparr>"

definition apple :: NutritionalInfo where
  "apple =
     \<lparr>ID = ''from-analyzer'', TotalWeight = 0, Calories = 52, Protein = 3 / 10, Carbs = 14,
      Fat = 1 / 5, Fiber = 12 / 5, Sugar = 10, ImagePath = '''', CreatedAt = zero_time,
      UpdatedAt = zero_time\<rparr>"

definition calm :: world where
  "calm =
     \<lparr>Now = 1000, ProcessImage = (\<lambda>b. Some apple), SaveNutritionalInfo_fails = False,
      SaveScan_fails = False, GetRecent_fails = False\<rparr>"

definition empty_db :: SQLiteDB where
  "empty_db = \<lparr>nutritional_info = [], nutrition_scans = []\<rparr>"

text \<open>
  Inputs for the history aggregation: a database whose one record was created at the
  very start of a week (Sunday, January 4, 1970, 00:00 UTC), and a record with a
  negative calorie value, as a \<open>confirm_scan\<close> with \<open>calories: -1\<close> stores it.
\<close>

definition sunday :: time where
  "sunday = 3 * day_ns"

definition logged_at_week_start :: SQLiteDB where
  "logged_at_week_start =
     \<lparr>nutritional_info = [apple\<lparr>ID := ''a'', CreatedAt := sunday\<rparr>], nutrition_scans = []\<rparr>"

definition negative_entry :: NutritionalInfo where
  "negative_entry = apple\<lparr>CreatedAt := 5, Calories := - 1\<rparr>"

text \<open>
  A short session: a connection is opened, a scan of 250 g is sent and analysed. The
  connection took the first identifier, the draft the second one (\<open>''u''\<close>), under which
  the decoded image is pending afterwards. \<open>confirm_data\<close> confirms that draft.
\<close>

definition scan_data :: "(string \<times> json) list" where
  "scan_data = [(''image'', JString ''aGk=''), (''totalWeight'', JNumber 250)]"

definition scan_request :: "(string \<times> json) list" where
  "scan_request = [(''type'', JString ''scan''), (''data'', JObject scan_data)]"

definition session :: "event list" where
  "session = [Connect, Receive scan_request calm]"

definition after_session :: Server where
  "after_session =
     \<lparr>db = empty_db, clients = [[]],
      tempImageData = [''u'' \<mapsto> Bytes [104, 105]], uuid_calls = 2\<rparr>"

definition confirm_data :: "(string \<times> json) list" where
  "confirm_data =
     [(''id'', JString ''u''), (''total_weight'', JNumber 250), (''calories'', JNumber 52),
      (''protein'', JNumber (3 / 10)), (''carbs'', JNumber 14), (''fat'', JNumber (1 / 5)),
      (''fiber'', JString ''2.4'')]"

text \<open>
  What holds of every state that a run reaches from \<open>New d\<close>, with \<open>outs\<close> what has been
  written so far: a pending entry holds bytes and is kept under an identifier that a
  \<open>scan_result\<close> carried; the identifiers that \<open>scan_result\<close> messages carried came from
  the generator; a row of \<open>nutrition_scans\<close> was in \<open>d\<close> or has an identifier from the
  generator that no \<open>scan_result\<close> carried.
\<close>

definition pending_issued :: "Server \<Rightarrow> outbound list \<Rightarrow> bool" where
  "pending_issued s outs \<longleftrightarrow>
     (\<forall>i v. tempImageData s i = Some v \<longrightarrow> (\<exists>img. v = Bytes img) \<and> i \<in> set (issued_ids outs))"

definition minted :: "env \<Rightarrow> SQLiteDB \<Rightarrow> Server \<Rightarrow> outbound list \<Rightarrow> bool" where
  "minted e d s outs \<longleftrightarrow>
     (\<forall>i \<in> set (issued_ids outs). \<exists>k < uuid_calls s. i = uuid_String e k) \<and>
     (\<forall>row \<in> set (nutrition_scans (db s)).
        row \<in> set (nutrition_scans d) \<or>
        (\<exists>k < uuid_calls s. row_id row = uuid_String e k) \<and> row_id row \<notin> set (issued_ids outs))"

text \<open>
  The reading of a nutrient field as the specification words it: the value is the number
  the client supplied where the field is present and a number, and the default elsewhere.
\<close>

definition supplied_or_default :: "(string \<rightharpoonup> json) \<Rightarrow> string \<Rightarrow> real \<Rightarrow> real \<Rightarrow> bool" where
  "supplied_or_default data k dflt v \<longleftrightarrow>
     (\<forall>x. data k = Some (JNumber x) \<longrightarrow> v = x) \<and>
     ((\<forall>x. data k \<noteq> Some (JNumber x)) \<longrightarrow> v = dflt)"

text \<open>A scan of minus five grams, and a message of a type the server does not know.\<close>

definition negative_weight_scan :: "(string \<times> json) list" where
  "negative_weight_scan = [(''image'', JString ''aGk=''), (''totalWeight'', JNumber (- 5))]"

definition ping :: "(string \<times> json) list" where
  "ping = [(''type'', JString ''ping'')]"





section \<open>The history aggregation\<close>

text \<open>The loop adds up two filtered sublists; the day's filter is the week's and one more test.\<close>

lemma calculate_totals_filter:
  "calculate_totals sod sow infos (d, w) =
     (foldl add_info d (filter (\<lambda>r. After (CreatedAt r) sow \<and> After (CreatedAt r) sod) infos),
      foldl add_info w (filter (\<lambda>r. After (CreatedAt r) sow) infos))"
  by (induction infos arbitrary: d w) simp_all

lemma foldl_add_info:
  "total_Calories (foldl add_info t xs) = total_Calories t + sum_list (map Calories xs)"
  "total_Protein (foldl add_info t xs) = total_Protein t + sum_list (map Protein xs)"
  "total_Carbs (foldl add_info t xs) = total_Carbs t + sum_list (map Carbs xs)"
  "total_Fat (foldl add_info t xs) = total_Fat t + sum_list (map Fat xs)"
  by (induction xs arbitrary: t) (simp_all add: add_info_def)

lemma sum_list_filter_le:
  fixes f :: "'a \<Rightarrow> real"
  assumes "\<forall>x \<in> set xs. 0 \<le> f x"
  shows "sum_list (map f (filter (\<lambda>x. P x \<and> Q x) xs)) \<le> sum_list (map f (filter P xs))"
  using assms by (induction xs) auto

lemma totals_eq_iff:
  "(t = u) = (total_Calories t = total_Calories u \<and> total_Protein t = total_Protein u \<and>
     total_Carbs t = total_Carbs u \<and> total_Fat t = total_Fat u)" for t u :: totals
  by auto

lemma calculate_totals_fiber_sugar:
  "calculate_totals sod sow (map (\<lambda>r. r\<lparr>Fiber := f r, Sugar := g r\<rparr>) infos) (d, w) =
   calculate_totals sod sow infos (d, w)"
  by (induction infos arbitrary: d w) (simp_all add: add_info_def)

text \<open>
  Claim C4, as stated: a record whose \<open>createdAt\<close> equals \<open>startOfWeek\<close> counts toward
  the week total. It does not. On Sunday, January 4, 1970, at 10:00 UTC the week started
  at 00:00 of that day; the one stored record was created at exactly that instant, with
  52 kcal, and \<open>get_history\<close> answers with a week total (and a day total) of zero.
\<close>

theorem week_start_counterexample:
  "Calories (apple\<lparr>ID := ''a'', CreatedAt := sunday\<rparr>) = 52 \<and>
   Midnight utc_env (AddDays utc_env (sunday + 36000000000000)
      (- Weekday utc_env (sunday + 36000000000000))) = sunday \<and>
   handleGetHistory utc_env (calm\<lparr>Now := sunday + 36000000000000\<rparr>) (New logged_at_week_start)
     = (New logged_at_week_start,
        [Msg ''history'' (HistoryResponse [apple\<lparr>ID := ''a'', CreatedAt := sunday\<rparr>]
                           zero_totals zero_totals)])"
  by (simp add: handleGetHistory_def GetRecentNutritionalInfo_def utc_env_def calm_def New_def
      logged_at_week_start_def sunday_def day_ns_def After_def sendMessage_def apple_def)

text \<open>
  Claim C4, amended: the comparison is strict. Take any list of records and put one more
  record \<open>r\<close> anywhere into it. If \<open>r\<close> was created at \<open>startOfWeek\<close> or before, both
  totals are what they were without it; if it was created after \<open>startOfWeek\<close>, its four
  macros are added to the week total. If it was created at \<open>startOfDay\<close> or before, the
  day total is what it was; if it was created after \<open>startOfDay\<close> and after
  \<open>startOfWeek\<close>, its four macros are added to the day total.
\<close>

theorem history_boundary:
  "calculate_totals sod sow (xs @ r # ys) (zero_totals, zero_totals) = (d', w') \<Longrightarrow>
   calculate_totals sod sow (xs @ ys) (zero_totals, zero_totals) = (d, w) \<Longrightarrow>
   (CreatedAt r \<le> sow \<longrightarrow> w' = w \<and> d' = d) \<and>
   (sow < CreatedAt r \<longrightarrow> w' = add_info w r) \<and>
   (CreatedAt r \<le> sod \<longrightarrow> d' = d) \<and>
   (sow < CreatedAt r \<and> sod < CreatedAt r \<longrightarrow> d' = add_info d r)"
  by (auto simp: calculate_totals_filter After_def totals_eq_iff foldl_add_info add_info_def)

theorem history_boundary_witness:
  "calculate_totals 7 7 [negative_entry\<lparr>CreatedAt := 8\<rparr>] (zero_totals, zero_totals)
     = (add_info zero_totals (negative_entry\<lparr>CreatedAt := 8\<rparr>),
        add_info zero_totals (negative_entry\<lparr>CreatedAt := 8\<rparr>)) \<and>
   calculate_totals 7 7 [negative_entry\<lparr>CreatedAt := 7\<rparr>] (zero_totals, zero_totals)
     = (zero_totals, zero_totals)"
proof -
  have without: "calculate_totals 7 7 ([] @ []) (zero_totals, zero_totals) = (zero_totals, zero_totals)"
    by simp
  obtain d' w' where after:
    "calculate_totals 7 7 ([] @ negative_entry\<lparr>CreatedAt := 8\<rparr> # []) (zero_totals, zero_totals)
       = (d', w')"
    by (cases "calculate_totals 7 7 ([] @ negative_entry\<lparr>CreatedAt := 8\<rparr> # [])
        (zero_totals, zero_totals)")
  obtain d'' w'' where at:
    "calculate_totals 7 7 ([] @ negative_entry\<lparr>CreatedAt := 7\<rparr> # []) (zero_totals, zero_totals)
       = (d'', w'')"
    by (cases "calculate_totals 7 7 ([] @ negative_entry\<lparr>CreatedAt := 7\<rparr> # [])
        (zero_totals, zero_totals)")
  from history_boundary [OF after without] have "d' = add_info zero_totals (negative_entry\<lparr>CreatedAt := 8\<rparr>)"
    and "w' = add_info zero_totals (negative_entry\<lparr>CreatedAt := 8\<rparr>)"
    by simp_all
  moreover from history_boundary [OF at without] have "d'' = zero_totals" and "w'' = zero_totals"
    by simp_all
  ultimately show ?thesis using after at by simp
qed

text \<open>
  Claim C6, as stated: whenever \<open>startOfDay \<ge> startOfWeek\<close>, every component of the day
  total is at most the component of the week total. The handlers store the numbers the
  client sends, of any sign; with a record of \<open>-1\<close> kcal created this week and before
  today, the day's calories are \<open>0\<close> and the week's are \<open>-1\<close>.
\<close>

theorem day_within_week_counterexample:
  "(0::time) \<le> 10 \<and>
   total_Calories (snd (calculate_totals 10 0 [negative_entry] (zero_totals, zero_totals)))
   < total_Calories (fst (calculate_totals 10 0 [negative_entry] (zero_totals, zero_totals)))"
  by (simp add: negative_entry_def After_def apple_def add_info_def zero_totals_def)

text \<open>
  Claim C6, amended: for every list of records and all instants \<open>startOfDay\<close> and
  \<open>startOfWeek\<close>, the week total is the sum over the records created after
  \<open>startOfWeek\<close>, and the day total is the sum over those of them that were also created
  after \<open>startOfDay\<close>: a record that counts for the day counts for the week. When the four
  primary macros of every record are non-negative, every component of the day total is
  at most the component of the week total (whether or not \<open>startOfDay \<ge> startOfWeek\<close>).
  Only calories, protein, carbs and fat are summed: the totals do not change when the
  fiber and sugar of the records do.
\<close>

theorem day_within_week:
  "calculate_totals sod sow infos (zero_totals, zero_totals) = (dayTotal, weekTotal) \<Longrightarrow>
   total_Calories weekTotal = (\<Sum>r\<leftarrow>filter (\<lambda>r. sow < CreatedAt r) infos. Calories r) \<and>
   total_Protein weekTotal = (\<Sum>r\<leftarrow>filter (\<lambda>r. sow < CreatedAt r) infos. Protein r) \<and>
   total_Carbs weekTotal = (\<Sum>r\<leftarrow>filter (\<lambda>r. sow < CreatedAt r) infos. Carbs r) \<and>
   total_Fat weekTotal = (\<Sum>r\<leftarrow>filter (\<lambda>r. sow < CreatedAt r) infos. Fat r) \<and>
   total_Calories dayTotal =
     (\<Sum>r\<leftarrow>filter (\<lambda>r. sow < CreatedAt r \<and> sod < CreatedAt r) infos. Calories r) \<and>
   total_Protein dayTotal =
     (\<Sum>r\<leftarrow>filter (\<lambda>r. sow < CreatedAt r \<and> sod < CreatedAt r) infos. Protein r) \<and>
   total_Carbs dayTotal =
     (\<Sum>r\<leftarrow>filter (\<lambda>r. sow < CreatedAt r \<and> sod < CreatedAt r) infos. Carbs r) \<and>
   total_Fat dayTotal =
     (\<Sum>r\<leftarrow>filter (\<lambda>r. sow < CreatedAt r \<and> sod < CreatedAt r) infos. Fat r) \<and>
   ((\<forall>r \<in> set infos. 0 \<le> Calories r \<and> 0 \<le> Protein r \<and> 0 \<le> Carbs r \<and> 0 \<le> Fat r) \<longrightarrow>
      total_Calories dayTotal \<le> total_Calories weekTotal \<and>
      total_Protein dayTotal \<le> total_Protein weekTotal \<and>
      total_Carbs dayTotal \<le> total_Carbs weekTotal \<and>
      total_Fat dayTotal \<le> total_Fat weekTotal) \<and>
   calculate_totals sod sow (map (\<lambda>r. r\<lparr>Fiber := f r, Sugar := g r\<rparr>) infos)
     (zero_totals, zero_totals) = (dayTotal, weekTotal)"
proof -
  assume run: "calculate_totals sod sow infos (zero_totals, zero_totals) = (dayTotal, weekTotal)"
  let ?W = "filter (\<lambda>r. sow < CreatedAt r) infos"
  let ?D = "filter (\<lambda>r. sow < CreatedAt r \<and> sod < CreatedAt r) infos"
  from run have d: "dayTotal = foldl add_info zero_totals ?D"
    and w: "weekTotal = foldl add_info zero_totals ?W"
    by (simp_all add: calculate_totals_filter After_def)
  have sums: "total_Calories weekTotal = (\<Sum>r\<leftarrow>?W. Calories r)"
    "total_Protein weekTotal = (\<Sum>r\<leftarrow>?W. Protein r)"
    "total_Carbs weekTotal = (\<Sum>r\<leftarrow>?W. Carbs r)"
    "total_Fat weekTotal = (\<Sum>r\<leftarrow>?W. Fat r)"
    "total_Calories dayTotal = (\<Sum>r\<leftarrow>?D. Calories r)"
    "total_Protein dayTotal = (\<Sum>r\<leftarrow>?D. Protein r)"
    "total_Carbs dayTotal = (\<Sum>r\<leftarrow>?D. Carbs r)"
    "total_Fat dayTotal = (\<Sum>r\<leftarrow>?D. Fat r)"
    unfolding d w by (simp_all add: foldl_add_info zero_totals_def)
  have le: "total_Calories dayTotal \<le> total_Calories weekTotal \<and>
      total_Protein dayTotal \<le> total_Protein weekTotal \<and>
      total_Carbs dayTotal \<le> total_Carbs weekTotal \<and>
      total_Fat dayTotal \<le> total_Fat weekTotal"
    if "\<forall>r \<in> set infos. 0 \<le> Calories r \<and> 0 \<le> Protein r \<and> 0 \<le> Carbs r \<and> 0 \<le> Fat r"
    unfolding sums using that by (simp add: sum_list_filter_le)
  have fs: "calculate_totals sod sow (map (\<lambda>r. r\<lparr>Fiber := f r, Sugar := g r\<rparr>) infos)
     (zero_totals, zero_totals) = (dayTotal, weekTotal)"
    using run by (simp add: calculate_totals_fiber_sugar)
  from sums le fs show ?thesis by blast
qed

theorem day_within_week_witness:
  "calculate_totals 10 0 [apple\<lparr>CreatedAt := 5\<rparr>] (zero_totals, zero_totals)
     = (zero_totals, add_info zero_totals apple) \<and>
   total_Calories (add_info zero_totals apple) = 52 \<and>
   total_Calories zero_totals \<le> total_Calories (add_info zero_totals apple)"
proof -
  have run: "calculate_totals 10 0 [apple\<lparr>CreatedAt := 5\<rparr>] (zero_totals, zero_totals)
     = (zero_totals, add_info zero_totals (apple\<lparr>CreatedAt := 5\<rparr>))"
    by (simp add: After_def)
  have same: "add_info zero_totals (apple\<lparr>CreatedAt := 5\<rparr>) = add_info zero_totals apple"
    by (simp add: add_info_def)
  have nonneg: "\<forall>r \<in> set [apple\<lparr>CreatedAt := 5\<rparr>].
      0 \<le> Calories r \<and> 0 \<le> Protein r \<and> 0 \<le> Carbs r \<and> 0 \<le> Fat r"
    by (simp add: apple_def)
  from day_within_week [OF run, of Fiber Sugar] nonneg same run show ?thesis
    by (simp add: apple_def)
qed

section \<open>What the handlers do to the server\<close>


lemma handleScan_cases:
  "handleScan e w s data = (s', out) \<Longrightarrow>
   (s' = s \<and> (\<exists>m. out = [Err m])) \<or>
   (\<exists>img info. s' = s\<lparr>uuid_calls := Suc (uuid_calls s),
                        tempImageData := (tempImageData s)(uuid_String e (uuid_calls s) \<mapsto> Bytes img)\<rparr> \<and>
      out = [Msg ''scan_result'' (Info info)] \<and> ID info = uuid_String e (uuid_calls s))"
  by (auto simp: handleScan_def sendError_def sendMessage_def uuid_New_def Let_def
      split: option.splits)

lemma handleConfirmScan_cases:
  "handleConfirmScan e w s data = (s', out) \<Longrightarrow>
   issued_ids out = [] \<and> uuid_calls s \<le> uuid_calls s' \<and> clients s' = clients s \<and>
   (\<forall>i v. tempImageData s' i = Some v \<longrightarrow> tempImageData s i = Some v) \<and>
   (\<forall>row \<in> set (nutrition_scans (db s')). row \<in> set (nutrition_scans (db s)) \<or>
       (row_id row = uuid_String e (uuid_calls s) \<and> uuid_calls s' = Suc (uuid_calls s)))"
  by (auto simp: handleConfirmScan_def sendError_def sendMessage_def uuid_New_def Let_def
      SaveNutritionalInfo_def SaveScan_def row_of_scan_def
      split: option.splits any_value.splits if_splits)

lemma handleGetHistory_cases:
  "handleGetHistory e w s = (s', out) \<Longrightarrow> s' = s \<and> issued_ids out = []"
  by (auto simp: handleGetHistory_def sendError_def sendMessage_def Let_def
      split: option.splits prod.splits)

lemma issued_ids_append: "issued_ids (xs @ ys) = issued_ids xs @ issued_ids ys"
  by (induction xs rule: issued_ids.induct) simp_all

lemma handleWebSocketMessage_cases:
  "handleWebSocketMessage e w s message = (s', out) \<Longrightarrow>
   (s' = s \<and> issued_ids out = []) \<or>
   (\<exists>data. handleScan e w s data = (s', out)) \<or>
   (\<exists>data. handleConfirmScan e w s data = (s', out))"
  by (auto simp: handleWebSocketMessage_def sendError_def Let_def
      dest: handleGetHistory_cases split: option.splits if_splits)

lemma step_cases:
  "step e s ev = (s', out) \<Longrightarrow>
   (out = [] \<and> tempImageData s' = tempImageData s \<and> db s' = db s \<and> uuid_calls s \<le> uuid_calls s') \<or>
   (s' = s \<and> issued_ids out = []) \<or>
   (\<exists>w data. handleScan e w s data = (s', out)) \<or>
   (\<exists>w data. handleConfirmScan e w s data = (s', out))"
proof (cases ev)
  case Connect
  assume "step e s ev = (s', out)"
  with Connect show ?thesis by (auto simp: register_def uuid_New_def)
next
  case (Disconnect c)
  assume "step e s ev = (s', out)"
  with Disconnect show ?thesis by (auto simp: deregister_def)
next
  case (Receive msg w)
  assume "step e s ev = (s', out)"
  with Receive have "handleWebSocketMessage e w s (map_of msg) = (s', out)" by simp
  from handleWebSocketMessage_cases [OF this] show ?thesis by blast
qed

lemma scan_pending_issued:
  assumes "pending_issued s outs" and "handleScan e w s data = (s', out)"
  shows "pending_issued s' (outs @ out)"
  using handleScan_cases [OF assms(2)] assms(1)
  by (auto simp: pending_issued_def issued_ids_append split: if_splits)

lemma confirm_pending_issued:
  assumes "pending_issued s outs" and "handleConfirmScan e w s data = (s', out)"
  shows "pending_issued s' (outs @ out)"
proof -
  from handleConfirmScan_cases [OF assms(2)]
  have out: "issued_ids out = []"
    and sub: "\<And>i v. tempImageData s' i = Some v \<Longrightarrow> tempImageData s i = Some v"
    by blast+
  show ?thesis
    unfolding pending_issued_def issued_ids_append out
    using assms(1) sub unfolding pending_issued_def by fastforce
qed

lemma step_pending_issued:
  assumes "pending_issued s outs" and "step e s ev = (s', out)"
  shows "pending_issued s' (outs @ out)"
  using step_cases [OF assms(2)]
proof (elim disjE exE conjE)
  assume "out = []" "tempImageData s' = tempImageData s"
  with assms(1) show ?thesis by (simp add: pending_issued_def)
next
  assume "s' = s" "issued_ids out = []"
  with assms(1) show ?thesis by (simp add: pending_issued_def issued_ids_append)
next
  fix w data assume "handleScan e w s data = (s', out)"
  from scan_pending_issued [OF assms(1) this] show ?thesis .
next
  fix w data assume "handleConfirmScan e w s data = (s', out)"
  from confirm_pending_issued [OF assms(1) this] show ?thesis .
qed

lemma scan_minted:
  assumes "inj (uuid_String e)" and "minted e d s outs" and "handleScan e w s data = (s', out)"
  shows "minted e d s' (outs @ out)"
  using handleScan_cases [OF assms(3)]
proof (elim disjE exE conjE)
  fix m assume "s' = s" "out = [Err m]"
  with assms(2) show ?thesis by (simp add: minted_def issued_ids_append)
next
  fix img info
  assume s': "s' = s\<lparr>uuid_calls := Suc (uuid_calls s),
        tempImageData := (tempImageData s)(uuid_String e (uuid_calls s) \<mapsto> Bytes img)\<rparr>"
    and out: "out = [Msg ''scan_result'' (Info info)]"
    and idn: "ID info = uuid_String e (uuid_calls s)"
  have iss: "issued_ids (outs @ out) = issued_ids outs @ [uuid_String e (uuid_calls s)]"
    by (simp add: issued_ids_append out idn)
  have a: "\<exists>k < uuid_calls s'. i = uuid_String e k" if "i \<in> set (issued_ids (outs @ out))" for i
  proof -
    have n: "uuid_calls s' = Suc (uuid_calls s)" by (simp add: s')
    from that consider "i \<in> set (issued_ids outs)" | "i = uuid_String e (uuid_calls s)"
      unfolding iss by auto
    then show ?thesis
    proof cases
      case 1
      with assms(2) obtain k where "k < uuid_calls s" "i = uuid_String e k"
        unfolding minted_def by blast
      then show ?thesis unfolding n by (blast intro: less_SucI)
    next
      case 2
      then show ?thesis unfolding n by blast
    qed
  qed
  have b: "row \<in> set (nutrition_scans d) \<or>
        (\<exists>k < uuid_calls s'. row_id row = uuid_String e k) \<and> row_id row \<notin> set (issued_ids (outs @ out))"
    if "row \<in> set (nutrition_scans (db s'))" for row
  proof -
    from that have "row \<in> set (nutrition_scans (db s))" by (simp add: s')
    with assms(2) consider "row \<in> set (nutrition_scans d)"
      | k where "k < uuid_calls s" "row_id row = uuid_String e k" "row_id row \<notin> set (issued_ids outs)"
      unfolding minted_def by blast
    then show ?thesis
    proof cases
      case 1 then show ?thesis by simp
    next
      case 2
      from 2(1,2) assms(1) have "row_id row \<noteq> uuid_String e (uuid_calls s)"
        by (auto dest: injD)
      then have notin: "row_id row \<notin> set (issued_ids (outs @ out))"
        using 2(3) unfolding iss by simp
      have "uuid_calls s' = Suc (uuid_calls s)" by (simp add: s')
      with 2(1) have "k < uuid_calls s'" by simp
      with 2(2) have "\<exists>k < uuid_calls s'. row_id row = uuid_String e k" by blast
      with notin show ?thesis by blast
    qed
  qed
  from a b show ?thesis unfolding minted_def by blast
qed

lemma confirm_minted:
  assumes "inj (uuid_String e)" and "minted e d s outs" and "handleConfirmScan e w s data = (s', out)"
  shows "minted e d s' (outs @ out)"
proof -
  from handleConfirmScan_cases [OF assms(3)]
  have out: "issued_ids out = []" and mono: "uuid_calls s \<le> uuid_calls s'"
    and rows: "\<And>row. row \<in> set (nutrition_scans (db s')) \<Longrightarrow> row \<in> set (nutrition_scans (db s)) \<or>
       (row_id row = uuid_String e (uuid_calls s) \<and> uuid_calls s' = Suc (uuid_calls s))"
    by blast+
  have a: "\<exists>k < uuid_calls s'. i = uuid_String e k" if "i \<in> set (issued_ids (outs @ out))" for i
    using that assms(2) mono unfolding minted_def issued_ids_append out
    by (metis append_Nil2 less_le_trans)
  have b: "row \<in> set (nutrition_scans d) \<or>
        (\<exists>k < uuid_calls s'. row_id row = uuid_String e k) \<and> row_id row \<notin> set (issued_ids (outs @ out))"
    if "row \<in> set (nutrition_scans (db s'))" for row
    using rows [OF that]
  proof
    assume "row \<in> set (nutrition_scans (db s))"
    with assms(2) mono show ?thesis
      unfolding minted_def issued_ids_append out by (metis append_Nil2 less_le_trans)
  next
    assume new: "row_id row = uuid_String e (uuid_calls s) \<and> uuid_calls s' = Suc (uuid_calls s)"
    have "uuid_String e (uuid_calls s) \<notin> set (issued_ids outs)"
    proof
      assume "uuid_String e (uuid_calls s) \<in> set (issued_ids outs)"
      with assms(2) obtain k where "k < uuid_calls s" "uuid_String e (uuid_calls s) = uuid_String e k"
        unfolding minted_def by blast
      with assms(1) show False by (auto dest: injD)
    qed
    with new show ?thesis unfolding issued_ids_append out by auto
  qed
  from a b show ?thesis unfolding minted_def by blast
qed

lemma step_minted:
  assumes "inj (uuid_String e)" and "minted e d s outs" and "step e s ev = (s', out)"
  shows "minted e d s' (outs @ out)"
  using step_cases [OF assms(3)]
proof (elim disjE exE conjE)
  assume "out = []" "tempImageData s' = tempImageData s" "db s' = db s" "uuid_calls s \<le> uuid_calls s'"
  with assms(2) show ?thesis unfolding minted_def by (metis append_Nil2 less_le_trans)
next
  assume "s' = s" "issued_ids out = []"
  with assms(2) show ?thesis by (simp add: minted_def issued_ids_append)
next
  fix w data assume "handleScan e w s data = (s', out)"
  from scan_minted [OF assms(1,2) this] show ?thesis .
next
  fix w data assume "handleConfirmScan e w s data = (s', out)"
  from confirm_minted [OF assms(1,2) this] show ?thesis .
qed

lemma run_pending_issued:
  "pending_issued s outs0 \<Longrightarrow> run e s evs = (s', outs) \<Longrightarrow> pending_issued s' (outs0 @ outs)"
proof (induction evs arbitrary: s outs0 outs s')
  case Nil
  then show ?case by simp
next
  case (Cons ev evs)
  obtain s1 out where st: "step e s ev = (s1, out)" by (cases "step e s ev")
  obtain s2 outs2 where rn: "run e s1 evs = (s2, outs2)" by (cases "run e s1 evs")
  from Cons.prems(2) st rn have eq: "s' = s2" "outs = out @ outs2" by simp_all
  from step_pending_issued [OF Cons.prems(1) st] have "pending_issued s1 (outs0 @ out)" .
  from Cons.IH [OF this rn] show ?case by (simp add: eq)
qed

lemma run_minted:
  "inj (uuid_String e) \<Longrightarrow> minted e d s outs0 \<Longrightarrow> run e s evs = (s', outs) \<Longrightarrow> minted e d s' (outs0 @ outs)"
proof (induction evs arbitrary: s outs0 outs s')
  case Nil
  then show ?case by simp
next
  case (Cons ev evs)
  obtain s1 out where st: "step e s ev = (s1, out)" by (cases "step e s ev")
  obtain s2 outs2 where rn: "run e s1 evs = (s2, outs2)" by (cases "run e s1 evs")
  from Cons.prems(3) st rn have eq: "s' = s2" "outs = out @ outs2" by simp_all
  from step_minted [OF Cons.prems(1,2) st] have "minted e d s1 (outs0 @ out)" .
  from Cons.IH [OF Cons.prems(1) this rn] show ?case by (simp add: eq)
qed

lemma New_pending_issued: "pending_issued (New d) []"
  by (simp add: pending_issued_def New_def)

lemma New_minted: "minted e d (New d) []"
  by (simp add: minted_def New_def)


lemma reached_pending_issued: "run e (New d) evs = (s, outs) \<Longrightarrow> pending_issued s outs"
  using run_pending_issued [OF New_pending_issued, of e d evs s outs] by simp

lemma reached_minted:
  "inj (uuid_String e) \<Longrightarrow> run e (New d) evs = (s, outs) \<Longrightarrow> minted e d s outs"
  using run_minted [OF _ New_minted, of e d evs s outs] by simp

lemma confirm_miss:
  "data ''id'' = Some (JString i) \<Longrightarrow> tempImageData s i = None \<Longrightarrow>
   handleConfirmScan e w s data = (s, [Err ''Image data not found''])"
  by (simp add: handleConfirmScan_def sendError_def)

lemma confirm_hit:
  assumes "data ''id'' = Some (JString i)" and "tempImageData s i = Some (Bytes img)"
  shows "tempImageData (fst (handleConfirmScan e w s data)) = (tempImageData s)(i := None)"
    and "snd (handleConfirmScan e w s data) =
      (if SaveNutritionalInfo_fails w then [Err ''Failed to save results'']
       else if SaveScan_fails w then [Err ''Failed to save scan'']
       else [Msg ''scan_saved'' Nil])"
  using assms
  by (simp_all add: handleConfirmScan_def sendError_def sendMessage_def uuid_New_def Let_def
      SaveNutritionalInfo_def SaveScan_def split: prod.splits)

text \<open>
  Claim C1: a \<open>confirm_scan\<close> whose id has no entry in the store of pending scans is
  answered with an error, never with \<open>scan_saved\<close>, and leaves the server (the
  repository with it) as it was. In every state that a run reaches, an id that no earlier
  \<open>scan_result\<close> carried has no entry. When the same id is confirmed twice, the first
  confirm succeeds if the repository does, and the second one misses, whatever else it
  carries: an entry is consumed at most once.
\<close>

theorem confirm_scan_unknown_id:
  assumes "run e (New d) evs = (s, outs)" and "data ''id'' = Some (JString i)"
  shows "(i \<notin> set (issued_ids outs) \<longrightarrow> tempImageData s i = None) \<and>
    (tempImageData s i = None \<longrightarrow>
       handleConfirmScan e w s data = (s, [Err ''Image data not found''])) \<and>
    (tempImageData s i \<noteq> None \<and> \<not> SaveNutritionalInfo_fails w \<and> \<not> SaveScan_fails w \<longrightarrow>
       snd (handleConfirmScan e w s data) = [Msg ''scan_saved'' Nil] \<and>
       (\<forall>w' data'. data' ''id'' = Some (JString i) \<longrightarrow>
          handleConfirmScan e w' (fst (handleConfirmScan e w s data)) data'
            = (fst (handleConfirmScan e w s data), [Err ''Image data not found''])))"
proof (intro conjI impI)
  from reached_pending_issued [OF assms(1)] have inv: "pending_issued s outs" .
  show "tempImageData s i = None" if "i \<notin> set (issued_ids outs)"
    using inv that unfolding pending_issued_def by (cases "tempImageData s i") auto
  show "handleConfirmScan e w s data = (s, [Err ''Image data not found''])"
    if "tempImageData s i = None"
    using confirm_miss [where data = data and i = i and s = s, OF assms(2) that] .
  assume hit: "tempImageData s i \<noteq> None \<and> \<not> SaveNutritionalInfo_fails w \<and> \<not> SaveScan_fails w"
  with inv obtain img where img: "tempImageData s i = Some (Bytes img)"
    unfolding pending_issued_def by blast
  from confirm_hit(2) [where data = data and i = i and s = s, OF assms(2) img] hit
  show "snd (handleConfirmScan e w s data) = [Msg ''scan_saved'' Nil]" by simp
  have gone: "tempImageData (fst (handleConfirmScan e w s data)) i = None"
    by (simp add: confirm_hit(1) [where data = data and i = i and s = s, OF assms(2) img])
  show "\<forall>w' data'. data' ''id'' = Some (JString i) \<longrightarrow>
      handleConfirmScan e w' (fst (handleConfirmScan e w s data)) data'
        = (fst (handleConfirmScan e w s data), [Err ''Image data not found''])"
    using gone by (simp add: confirm_miss)
qed

lemma confirm_failed_scans:
  assumes "data ''id'' = Some (JString i)" and "tempImageData s i = Some (Bytes img)"
    and "SaveNutritionalInfo_fails w \<or> SaveScan_fails w"
  shows "nutrition_scans (db (fst (handleConfirmScan e w s data))) = nutrition_scans (db s)"
  using assms
  by (auto simp: handleConfirmScan_def sendError_def uuid_New_def Let_def
      SaveNutritionalInfo_def SaveScan_def split: prod.splits)

text \<open>
  Claim C3: when a \<open>confirm_scan\<close> finds its pending entry and one of the two repository
  writes fails, the answer is an error and the entry stays removed: every later
  \<open>confirm_scan\<close> with that id misses. No scan row was written, so the image is lost.
\<close>

theorem confirm_failure_consumes:
  assumes "data ''id'' = Some (JString i)" and "tempImageData s i = Some (Bytes img)"
    and "SaveNutritionalInfo_fails w \<or> SaveScan_fails w"
  shows "\<exists>s' m. handleConfirmScan e w s data = (s', [Err m]) \<and>
      m \<in> {''Failed to save results'', ''Failed to save scan''} \<and>
      tempImageData s' = (tempImageData s)(i := None) \<and>
      nutrition_scans (db s') = nutrition_scans (db s) \<and>
      (\<forall>w' data'. data' ''id'' = Some (JString i) \<longrightarrow>
         handleConfirmScan e w' s' data' = (s', [Err ''Image data not found'']))"
proof -
  obtain s' out where r: "handleConfirmScan e w s data = (s', out)"
    by (cases "handleConfirmScan e w s data")
  from confirm_failed_scans [where data = data and i = i and s = s and e = e and w = w, OF assms] r
  have rows: "nutrition_scans (db s') = nutrition_scans (db s)" by simp
  from confirm_hit [where data = data and i = i and s = s and e = e and w = w, OF assms(1,2)] r
  have t: "tempImageData s' = (tempImageData s)(i := None)"
    and o: "out = (if SaveNutritionalInfo_fails w then [Err ''Failed to save results'']
       else if SaveScan_fails w then [Err ''Failed to save scan''] else [Msg ''scan_saved'' Nil])"
    by simp_all
  from t have "tempImageData s' i = None" by simp
  then have again: "\<forall>w' data'. data' ''id'' = Some (JString i) \<longrightarrow>
         handleConfirmScan e w' s' data' = (s', [Err ''Image data not found''])"
    by (simp add: confirm_miss)
  from o assms(3) obtain m where "out = [Err m]" "m \<in> {''Failed to save results'', ''Failed to save scan''}"
    by (cases "SaveNutritionalInfo_fails w") auto
  with r t rows again show ?thesis by blast
qed

text \<open>
  Claim C2: in every state that a run reaches, a \<open>scan\<close> whose image decodes and whose
  \<open>totalWeight\<close> is a number (positive or not), with the Analyzer succeeding, writes
  exactly one message, a \<open>scan_result\<close>. Its id is the identifier just taken from the
  generator, whatever id the Analyzer's draft had, and no earlier \<open>scan_result\<close> carried
  it (the generator never repeats itself); its total weight is the submitted one, its
  six nutrient values are the draft's; the decoded image is stored under that id.
\<close>

theorem scan_result_fresh:
  assumes "inj (uuid_String e)" and "run e (New d) evs = (s, outs)"
    and "data ''image'' = Some (JString imageStr)"
    and "DecodeString e imageStr = Some imageData"
    and "data ''totalWeight'' = Some (JNumber totalWeight)"
    and "ProcessImage w imageData = Some draft"
  shows "\<exists>s' info. handleScan e w s data = (s', [Msg ''scan_result'' (Info info)]) \<and>
      ID info = uuid_String e (uuid_calls s) \<and>
      ID info \<notin> set (issued_ids outs) \<and>
      TotalWeight info = totalWeight \<and>
      Calories info = Calories draft \<and> Protein info = Protein draft \<and>
      Carbs info = Carbs draft \<and> Fat info = Fat draft \<and>
      Fiber info = Fiber draft \<and> Sugar info = Sugar draft \<and>
      tempImageData s' = (tempImageData s)(ID info \<mapsto> Bytes imageData) \<and>
      db s' = db s"
proof -
  let ?n = "uuid_String e (uuid_calls s)"
  let ?info = "draft\<lparr>TotalWeight := totalWeight, ID := ?n, CreatedAt := Now w, UpdatedAt := Now w\<rparr>"
  let ?s' = "s\<lparr>uuid_calls := Suc (uuid_calls s),
               tempImageData := (tempImageData s)(?n \<mapsto> Bytes imageData)\<rparr>"
  have r: "handleScan e w s data = (?s', [Msg ''scan_result'' (Info ?info)])"
    using assms(3-6) by (simp add: handleScan_def sendMessage_def uuid_New_def)
  have fresh: "?n \<notin> set (issued_ids outs)"
  proof
    assume "?n \<in> set (issued_ids outs)"
    with reached_minted [OF assms(1,2)] obtain k where "k < uuid_calls s" "?n = uuid_String e k"
      unfolding minted_def by blast
    with assms(1) show False by (auto dest: injD)
  qed
  show ?thesis
    by (rule exI [of _ ?s'], rule exI [of _ ?info]) (simp add: r fresh)
qed


subsection \<open>The sample session\<close>


lemma utc_uuid_inj: "inj (uuid_String utc_env)"
proof (rule injI)
  fix j k assume "uuid_String utc_env j = uuid_String utc_env k"
  then have "length (replicate j (CHR ''u'')) = length (replicate k (CHR ''u''))"
    by (simp add: utc_env_def)
  then show "j = k" by simp
qed

lemma session_run:
  "run utc_env (New empty_db) session =
     (after_session,
      [Msg ''scan_result'' (Info (apple\<lparr>TotalWeight := 250, ID := ''u'', CreatedAt := 1000,
                                         UpdatedAt := 1000\<rparr>))])"
  by (simp add: session_def scan_request_def scan_data_def register_def uuid_New_def New_def
      handleWebSocketMessage_def handleScan_def utc_env_def calm_def sendMessage_def
      after_session_def empty_db_def numeral_2_eq_2)

theorem confirm_scan_unknown_id_witness:
  "handleConfirmScan utc_env calm after_session (map_of [(''id'', JString ''uu'')])
     = (after_session, [Err ''Image data not found'']) \<and>
   snd (handleConfirmScan utc_env calm after_session (map_of confirm_data))
     = [Msg ''scan_saved'' Nil] \<and>
   snd (handleConfirmScan utc_env calm
          (fst (handleConfirmScan utc_env calm after_session (map_of confirm_data)))
          (map_of confirm_data))
     = [Err ''Image data not found'']"
proof -
  have miss: "tempImageData after_session ''uu'' = None"
    and hit: "tempImageData after_session ''u'' \<noteq> None"
    and ok: "\<not> SaveNutritionalInfo_fails calm \<and> \<not> SaveScan_fails calm"
    by (simp_all add: after_session_def calm_def)
  from confirm_scan_unknown_id [OF session_run, of "map_of [(''id'', JString ''uu'')]" "''uu''" calm]
    miss
  have first: "handleConfirmScan utc_env calm after_session (map_of [(''id'', JString ''uu'')])
     = (after_session, [Err ''Image data not found''])"
    by simp
  from confirm_scan_unknown_id [OF session_run, of "map_of confirm_data" "''u''" calm] hit ok
  have second: "snd (handleConfirmScan utc_env calm after_session (map_of confirm_data))
       = [Msg ''scan_saved'' Nil] \<and>
     handleConfirmScan utc_env calm
       (fst (handleConfirmScan utc_env calm after_session (map_of confirm_data)))
       (map_of confirm_data)
     = (fst (handleConfirmScan utc_env calm after_session (map_of confirm_data)),
        [Err ''Image data not found''])"
    by (simp add: confirm_data_def)
  from first second show ?thesis by simp
qed

theorem confirm_failure_consumes_witness:
  "\<exists>s'. handleConfirmScan utc_env (calm\<lparr>SaveScan_fails := True\<rparr>) after_session
            (map_of confirm_data) = (s', [Err ''Failed to save scan'']) \<and>
     handleConfirmScan utc_env calm s' (map_of confirm_data)
       = (s', [Err ''Image data not found''])"
proof -
  have "map_of confirm_data ''id'' = Some (JString ''u'')"
    and "tempImageData after_session ''u'' = Some (Bytes [104, 105])"
    and "SaveNutritionalInfo_fails (calm\<lparr>SaveScan_fails := True\<rparr>) \<or>
         SaveScan_fails (calm\<lparr>SaveScan_fails := True\<rparr>)"
    by (simp_all add: confirm_data_def after_session_def)
  from confirm_failure_consumes [where data = "map_of confirm_data" and e = utc_env, OF this]
  obtain s' m where r: "handleConfirmScan utc_env (calm\<lparr>SaveScan_fails := True\<rparr>) after_session
        (map_of confirm_data) = (s', [Err m])"
    and again: "\<forall>w' data'. data' ''id'' = Some (JString ''u'') \<longrightarrow>
         handleConfirmScan utc_env w' s' data' = (s', [Err ''Image data not found''])"
    by blast
  have "snd (handleConfirmScan utc_env (calm\<lparr>SaveScan_fails := True\<rparr>) after_session
        (map_of confirm_data)) = [Err ''Failed to save scan'']"
    by (simp add: confirm_hit(2) [where i = "''u''" and img = "[104, 105]"] confirm_data_def
        after_session_def calm_def)
  with r have "m = ''Failed to save scan''" by simp
  with r again show ?thesis by (simp add: confirm_data_def)
qed

theorem scan_result_fresh_witness:
  "\<exists>s' info. handleScan utc_env calm after_session (map_of scan_data)
       = (s', [Msg ''scan_result'' (Info info)]) \<and>
     ID info = ''uu'' \<and> TotalWeight info = 250 \<and> Calories info = 52 \<and>
     tempImageData s' ''uu'' = Some (Bytes [104, 105]) \<and>
     tempImageData s' ''u'' = Some (Bytes [104, 105])"
proof -
  have "map_of scan_data ''image'' = Some (JString ''aGk='')"
    and "DecodeString utc_env ''aGk='' = Some [104, 105]"
    and "map_of scan_data ''totalWeight'' = Some (JNumber 250)"
    and "ProcessImage calm [104, 105] = Some apple"
    by (simp_all add: scan_data_def utc_env_def calm_def)
  from scan_result_fresh [where data = "map_of scan_data", OF utc_uuid_inj session_run this]
  show ?thesis
    by (auto simp: after_session_def utc_env_def apple_def numeral_2_eq_2)
qed


subsection \<open>The fields of a request\<close>


lemma find_upsert_info:
  "find (\<lambda>r. ID r = ID info) (upsert_info info rows) =
     Some (info\<lparr>CreatedAt := (case find (\<lambda>r. ID r = ID info) rows of
                                  None \<Rightarrow> CreatedAt info | Some r \<Rightarrow> CreatedAt r)\<rparr>)"
  by (induction rows) simp_all

lemma float_or_supplied: "supplied_or_default data k dflt (float_or data k dflt)"
proof (cases "data k")
  case None
  then show ?thesis by (simp add: supplied_or_default_def float_or_def)
next
  case (Some v)
  then show ?thesis by (cases v) (simp_all add: supplied_or_default_def float_or_def)
qed

lemma confirm_saved_info:
  assumes "data ''id'' = Some (JString i)" and "tempImageData s i = Some (Bytes img)"
    and "\<not> SaveNutritionalInfo_fails w"
  shows "\<exists>c. GetNutritionalInfo i (db (fst (handleConfirmScan e w s data))) =
      Some \<lparr>ID = i,
            TotalWeight = float_or data ''total_weight'' 100,
            Calories = float_or data ''calories'' 0,
            Protein = float_or data ''protein'' 0,
            Carbs = float_or data ''carbs'' 0,
            Fat = float_or data ''fat'' 0,
            Fiber = float_or data ''fiber'' 0,
            Sugar = float_or data ''sugar'' 0,
            ImagePath = [], CreatedAt = c, UpdatedAt = Now w\<rparr>"
  using assms
  by (simp add: handleConfirmScan_def sendError_def sendMessage_def uuid_New_def Let_def
      SaveNutritionalInfo_def SaveScan_def GetNutritionalInfo_def IsZero_def
      find_upsert_info [where info = "\<lparr>ID = i, TotalWeight = tw, Calories = a, Protein = b,
         Carbs = c, Fat = d, Fiber = f, Sugar = g, ImagePath = [], CreatedAt = t, UpdatedAt = u\<rparr>"
         for tw a b c d f g t u, simplified]
      split: prod.splits)


text \<open>
  Claim C5: a \<open>confirm_scan\<close> that finds its pending entry reads each of the seven
  nutrient fields on its own. When the write succeeds, the record stored under the
  confirmed id has, in every field, the number the client supplied where one was
  supplied, and the default elsewhere (100 for \<open>total_weight\<close>, 0 for the six others).
  No field makes the request fail: with the second write succeeding as well, the answer
  is \<open>scan_saved\<close>.
\<close>

theorem confirm_fields_default:
  assumes "data ''id'' = Some (JString i)" and "tempImageData s i = Some (Bytes img)"
    and "\<not> SaveNutritionalInfo_fails w"
  shows "\<exists>row. GetNutritionalInfo i (db (fst (handleConfirmScan e w s data))) = Some row \<and>
      ID row = i \<and>
      supplied_or_default data ''total_weight'' 100 (TotalWeight row) \<and>
      supplied_or_default data ''calories'' 0 (Calories row) \<and>
      supplied_or_default data ''protein'' 0 (Protein row) \<and>
      supplied_or_default data ''carbs'' 0 (Carbs row) \<and>
      supplied_or_default data ''fat'' 0 (Fat row) \<and>
      supplied_or_default data ''fiber'' 0 (Fiber row) \<and>
      supplied_or_default data ''sugar'' 0 (Sugar row) \<and>
      (\<not> SaveScan_fails w \<longrightarrow> snd (handleConfirmScan e w s data) = [Msg ''scan_saved'' Nil])"
proof -
  from confirm_saved_info [where data = data and i = i and s = s and e = e, OF assms]
  obtain c where "GetNutritionalInfo i (db (fst (handleConfirmScan e w s data))) =
      Some \<lparr>ID = i,
            TotalWeight = float_or data ''total_weight'' 100,
            Calories = float_or data ''calories'' 0,
            Protein = float_or data ''protein'' 0,
            Carbs = float_or data ''carbs'' 0,
            Fat = float_or data ''fat'' 0,
            Fiber = float_or data ''fiber'' 0,
            Sugar = float_or data ''sugar'' 0,
            ImagePath = [], CreatedAt = c, UpdatedAt = Now w\<rparr>" ..
  moreover have "\<not> SaveScan_fails w \<longrightarrow>
      snd (handleConfirmScan e w s data) = [Msg ''scan_saved'' Nil]"
    using assms(3)
    by (simp add: confirm_hit(2) [where data = data and i = i and s = s, OF assms(1,2)])
  ultimately show ?thesis by (simp add: float_or_supplied)
qed

lemma supplied_number:
  "supplied_or_default data k dflt v \<Longrightarrow> data k = Some (JNumber x) \<Longrightarrow> v = x"
  by (simp add: supplied_or_default_def)

lemma supplied_other:
  "supplied_or_default data k dflt v \<Longrightarrow> as_float64 (data k) = None \<Longrightarrow> v = dflt"
  unfolding supplied_or_default_def by (cases "data k") auto

theorem confirm_fields_default_witness:
  "\<exists>row. GetNutritionalInfo ''u''
            (db (fst (handleConfirmScan utc_env calm after_session (map_of confirm_data)))) = Some row \<and>
     TotalWeight row = 250 \<and> Calories row = 52 \<and> Protein row = 3 / 10 \<and> Carbs row = 14 \<and>
     Fat row = 1 / 5 \<and> Fiber row = 0 \<and> Sugar row = 0"
proof -
  let ?data = "map_of confirm_data"
  have "?data ''id'' = Some (JString ''u'')"
    and "tempImageData after_session ''u'' = Some (Bytes [104, 105])"
    and "\<not> SaveNutritionalInfo_fails calm"
    by (simp_all add: confirm_data_def after_session_def calm_def)
  from confirm_fields_default [where data = ?data and e = utc_env, OF this]
  obtain row where row: "GetNutritionalInfo ''u''
        (db (fst (handleConfirmScan utc_env calm after_session ?data))) = Some row"
    and f: "supplied_or_default ?data ''total_weight'' 100 (TotalWeight row)"
      "supplied_or_default ?data ''calories'' 0 (Calories row)"
      "supplied_or_default ?data ''protein'' 0 (Protein row)"
      "supplied_or_default ?data ''carbs'' 0 (Carbs row)"
      "supplied_or_default ?data ''fat'' 0 (Fat row)"
      "supplied_or_default ?data ''fiber'' 0 (Fiber row)"
      "supplied_or_default ?data ''sugar'' 0 (Sugar row)"
    by blast
  have "TotalWeight row = 250"
    by (rule supplied_number [OF f(1)]) (simp add: confirm_data_def)
  moreover have "Calories row = 52"
    by (rule supplied_number [OF f(2)]) (simp add: confirm_data_def)
  moreover have "Protein row = 3 / 10"
    by (rule supplied_number [OF f(3)]) (simp add: confirm_data_def)
  moreover have "Carbs row = 14"
    by (rule supplied_number [OF f(4)]) (simp add: confirm_data_def)
  moreover have "Fat row = 1 / 5"
    by (rule supplied_number [OF f(5)]) (simp add: confirm_data_def)
  moreover have "Fiber row = 0"
    by (rule supplied_other [OF f(6)]) (simp add: confirm_data_def)
  moreover have "Sugar row = 0"
    by (rule supplied_other [OF f(7)]) (simp add: confirm_data_def)
  ultimately show ?thesis using row by blast
qed

text \<open>
  Claim C7, as stated: a \<open>scan\<close> with a negative \<open>totalWeight\<close> is answered with an
  error and nothing else happens. The handler tests the type of the field only. With
  \<open>totalWeight: -5\<close> the image is analysed, the draft is sent as a \<open>scan_result\<close> of
  weight \<open>-5\<close>, and the image is pending under the new id.
\<close>

theorem negative_weight_counterexample:
  "as_float64 (map_of negative_weight_scan ''totalWeight'') = Some (- 5) \<and>
   handleScan utc_env calm after_session (map_of negative_weight_scan) =
     (after_session\<lparr>uuid_calls := 3,
         tempImageData := [''u'' \<mapsto> Bytes [104, 105], ''uu'' \<mapsto> Bytes [104, 105]]\<rparr>,
      [Msg ''scan_result'' (Info (apple\<lparr>TotalWeight := - 5, ID := ''uu'', CreatedAt := 1000,
                                         UpdatedAt := 1000\<rparr>))])"
  by (simp add: negative_weight_scan_def handleScan_def utc_env_def calm_def after_session_def
      uuid_New_def sendMessage_def numeral_2_eq_2)

text \<open>
  Claim C7, amended: \<open>scan\<close> requires \<open>data.image\<close> to be a string that decodes as
  base64 and \<open>data.totalWeight\<close> to be a number, of any sign. When the image is missing,
  not a string or does not decode, or the weight is missing or not a number, one error
  is written and the server is as it was: no pending entry, no \<open>scan_result\<close>, and the
  outcome is the same whatever the Analyzer would have answered.
\<close>

theorem scan_rejects_malformed:
  assumes "as_string (data ''image'') = None \<or> as_float64 (data ''totalWeight'') = None \<or>
     (\<exists>imageStr. data ''image'' = Some (JString imageStr) \<and> DecodeString e imageStr = None)"
  shows "(\<exists>m. handleScan e w s data = (s, [Err m])) \<and>
     (\<forall>w'. handleScan e w' s data = handleScan e w s data)"
  using assms
  by (auto simp: handleScan_def sendError_def split: option.splits)

theorem scan_rejects_malformed_witness:
  "handleScan utc_env calm after_session (map_of [(''image'', JString ''aGk='')])
     = (after_session, [Err ''Invalid weight value'']) \<and>
   handleScan utc_env calm after_session
       (map_of [(''image'', JString ''%%''), (''totalWeight'', JNumber 250)])
     = (after_session, [Err ''Invalid image format''])"
proof -
  have a: "as_string (map_of [(''image'', JString ''aGk='')] ''image'') = None \<or>
      as_float64 (map_of [(''image'', JString ''aGk='')] ''totalWeight'') = None \<or>
      (\<exists>imageStr. map_of [(''image'', JString ''aGk='')] ''image'' = Some (JString imageStr) \<and>
         DecodeString utc_env imageStr = None)"
    by simp
  have b: "as_string (map_of [(''image'', JString ''%%''), (''totalWeight'', JNumber 250)] ''image'') = None \<or>
      as_float64 (map_of [(''image'', JString ''%%''), (''totalWeight'', JNumber 250)] ''totalWeight'') = None \<or>
      (\<exists>imageStr. map_of [(''image'', JString ''%%''), (''totalWeight'', JNumber 250)] ''image''
          = Some (JString imageStr) \<and> DecodeString utc_env imageStr = None)"
    by (simp add: utc_env_def)
  from scan_rejects_malformed [OF a, of calm after_session]
  obtain m where m: "handleScan utc_env calm after_session (map_of [(''image'', JString ''aGk='')])
     = (after_session, [Err m])" by blast
  from scan_rejects_malformed [OF b, of calm after_session]
  obtain m' where m': "handleScan utc_env calm after_session
       (map_of [(''image'', JString ''%%''), (''totalWeight'', JNumber 250)])
     = (after_session, [Err m'])" by blast
  have "snd (handleScan utc_env calm after_session (map_of [(''image'', JString ''aGk='')]))
      = [Err ''Invalid weight value'']"
    by (simp add: handleScan_def sendError_def)
  with m have "m = ''Invalid weight value''" by simp
  moreover have "snd (handleScan utc_env calm after_session
       (map_of [(''image'', JString ''%%''), (''totalWeight'', JNumber 250)]))
      = [Err ''Invalid image format'']"
    by (simp add: handleScan_def sendError_def utc_env_def)
  with m' have "m' = ''Invalid image format''" by simp
  ultimately show ?thesis using m m' by simp
qed


subsection \<open>Bad messages, and the two writes of a confirm\<close>


text \<open>
  Claim C8, as stated: every malformed inbound message, an envelope that cannot be parsed
  among them, is answered with an error. For a frame that \<^verbatim>\<open>json.Unmarshal\<close> rejects the
  loop logs and goes on to the next read: nothing is written to the connection.
\<close>

theorem unparseable_counterexample:
  "readLoop utc_env after_session [(Unparseable, calm)] = (after_session, [], Reading)"
  by simp

text \<open>
  Claim C8, amended: a frame that does not parse is skipped without a response. A message
  whose \<open>type\<close> is not a string is answered with \<open>Invalid message format\<close>, a message
  whose \<open>type\<close> is a string other than the three known tags with
  \<open>Unknown message type\<close> (so \<open>{type: "ping"}\<close>). In all three cases the server is as
  it was and the loop goes on with the frames that follow, exactly as it would have
  without the bad one: a bad message never ends the connection.
\<close>

theorem bad_message_continues:
  "readLoop e s ((Unparseable, w) # rest) = readLoop e s rest \<and>
   (as_string (map_of msg ''type'') = None \<longrightarrow>
      handleWebSocketMessage e w s (map_of msg) = (s, [Err ''Invalid message format'']) \<and>
      readLoop e s ((Parsed msg, w) # rest) =
        (case readLoop e s rest of
           (s2, outs, st) \<Rightarrow> (s2, Err ''Invalid message format'' # outs, st))) \<and>
   (\<forall>t. map_of msg ''type'' = Some (JString t) \<and>
        t \<notin> {''scan'', ''confirm_scan'', ''get_history''} \<longrightarrow>
      handleWebSocketMessage e w s (map_of msg) = (s, [Err ''Unknown message type'']) \<and>
      readLoop e s ((Parsed msg, w) # rest) =
        (case readLoop e s rest of
           (s2, outs, st) \<Rightarrow> (s2, Err ''Unknown message type'' # outs, st))) \<and>
   handleWebSocketMessage e w s (map_of ping) = (s, [Err ''Unknown message type''])"
  by (auto simp: handleWebSocketMessage_def sendError_def ping_def split: prod.splits)

theorem bad_message_continues_witness:
  "readLoop utc_env after_session [(Parsed ping, calm)]
     = (after_session, [Err ''Unknown message type''], Reading) \<and>
   readLoop utc_env after_session [(Parsed [(''type'', JNumber 1)], calm)]
     = (after_session, [Err ''Invalid message format''], Reading)"
proof -
  have a: "map_of ping ''type'' = Some (JString ''ping'') \<and>
      ''ping'' \<notin> {''scan'', ''confirm_scan'', ''get_history''}"
    by (simp add: ping_def)
  have b: "as_string (map_of [(''type'', JNumber 1)] ''type'') = None" by simp
  from bad_message_continues [of utc_env after_session calm "[]" ping] a
  have "readLoop utc_env after_session [(Parsed ping, calm)]
     = (after_session, [Err ''Unknown message type''], Reading)"
    by simp
  moreover from bad_message_continues [of utc_env after_session calm "[]" "[(''type'', JNumber 1)]"] b
  have "readLoop utc_env after_session [(Parsed [(''type'', JNumber 1)], calm)]
     = (after_session, [Err ''Invalid message format''], Reading)"
    by simp
  ultimately show ?thesis by simp
qed















lemma as_string_Some: "as_string v = Some x \<longleftrightarrow> v = Some (JString x)"
  by (cases v rule: as_string.cases) simp_all

lemma confirm_saved_cases:
  assumes "handleConfirmScan e w s data = (s', [Msg ''scan_saved'' Nil])"
  shows "\<exists>i img. data ''id'' = Some (JString i) \<and> tempImageData s i = Some (Bytes img) \<and>
      \<not> SaveNutritionalInfo_fails w \<and> \<not> SaveScan_fails w \<and>
      nutrition_scans (db s') =
        filter (\<lambda>r. row_id r \<noteq> uuid_String e (uuid_calls s)) (nutrition_scans (db s)) @
        [\<lparr>row_id = uuid_String e (uuid_calls s), row_image_data = img,
          row_status = ''completed'', row_error = [],
          row_created_at = Now w, row_updated_at = Now w\<rparr>]"
  using assms
  by (auto simp: handleConfirmScan_def sendError_def sendMessage_def uuid_New_def Let_def
      SaveNutritionalInfo_def SaveScan_def row_of_scan_def as_string_Some
      split: option.splits any_value.splits if_splits)

text \<open>
  Claim C10: in every state that a run reaches (the scan rows that were in the database
  before the run carrying identifiers other than the generator's), no scan row has an id
  that a \<open>scan_result\<close> carried. A \<open>confirm_scan\<close> answered with \<open>scan_saved\<close> has
  appended one scan row: its id is the identifier just taken from the generator, which
  is not the confirmed id and which no \<open>scan_result\<close> carried; its status is
  \<open>completed\<close>, its error is empty, and its image is the one that was pending. The
  confirmed id is the id of the nutrient record stored by the same confirm.
\<close>

theorem scan_record_ids:
  assumes "inj (uuid_String e)"
    and "\<forall>row \<in> set (nutrition_scans d). row_id row \<notin> range (uuid_String e)"
    and "run e (New d) evs = (s, outs)"
  shows "(\<forall>row \<in> set (nutrition_scans (db s)). row_id row \<notin> set (issued_ids outs)) \<and>
    (\<forall>w data s'. handleConfirmScan e w s data = (s', [Msg ''scan_saved'' Nil]) \<longrightarrow>
       (\<exists>i img. data ''id'' = Some (JString i) \<and> tempImageData s i = Some (Bytes img) \<and>
          nutrition_scans (db s') = nutrition_scans (db s) @
            [\<lparr>row_id = uuid_String e (uuid_calls s), row_image_data = img,
              row_status = ''completed'', row_error = [],
              row_created_at = Now w, row_updated_at = Now w\<rparr>] \<and>
          uuid_String e (uuid_calls s) \<noteq> i \<and>
          uuid_String e (uuid_calls s) \<notin> set (issued_ids outs) \<and>
          (\<exists>info. GetNutritionalInfo i (db s') = Some info \<and> ID info = i)))"
proof (intro conjI allI impI ballI)
  from reached_minted [OF assms(1,3)] have m: "minted e d s outs" .
  from reached_pending_issued [OF assms(3)] have p: "pending_issued s outs" .
  have below: "\<exists>k < uuid_calls s. j = uuid_String e k" if "j \<in> set (issued_ids outs)" for j
    using m that unfolding minted_def by blast
  have new: "uuid_String e (uuid_calls s) \<notin> set (issued_ids outs)"
  proof
    assume "uuid_String e (uuid_calls s) \<in> set (issued_ids outs)"
    from below [OF this] obtain k where "k < uuid_calls s"
      "uuid_String e (uuid_calls s) = uuid_String e k" by blast
    with assms(1) show False by (auto dest: injD)
  qed
  show "row_id row \<notin> set (issued_ids outs)" if row: "row \<in> set (nutrition_scans (db s))" for row
  proof
    assume iss: "row_id row \<in> set (issued_ids outs)"
    from m row consider "row \<in> set (nutrition_scans d)" | "row_id row \<notin> set (issued_ids outs)"
      unfolding minted_def by blast
    then show False
    proof cases
      case 1
      with assms(2) have "row_id row \<notin> range (uuid_String e)" by blast
      with below [OF iss] show False by blast
    next
      case 2
      with iss show False by simp
    qed
  qed
  fix w data s'
  assume saved: "handleConfirmScan e w s data = (s', [Msg ''scan_saved'' Nil])"
  from confirm_saved_cases [OF saved] obtain i img where
    idv: "data ''id'' = Some (JString i)" and pend: "tempImageData s i = Some (Bytes img)"
    and ok: "\<not> SaveNutritionalInfo_fails w"
    and rows: "nutrition_scans (db s') =
        filter (\<lambda>r. row_id r \<noteq> uuid_String e (uuid_calls s)) (nutrition_scans (db s)) @
        [\<lparr>row_id = uuid_String e (uuid_calls s), row_image_data = img,
          row_status = ''completed'', row_error = [],
          row_created_at = Now w, row_updated_at = Now w\<rparr>]"
    by blast
  have other: "row_id row \<noteq> uuid_String e (uuid_calls s)"
    if row: "row \<in> set (nutrition_scans (db s))" for row
  proof -
    from m row consider "row \<in> set (nutrition_scans d)"
      | k where "k < uuid_calls s" "row_id row = uuid_String e k"
      unfolding minted_def by blast
    then show ?thesis
    proof cases
      case 1
      with assms(2) have "row_id row \<notin> range (uuid_String e)" by blast
      then show ?thesis by blast
    next
      case 2
      with assms(1) show ?thesis by (auto dest: injD)
    qed
  qed
  then have keep: "filter (\<lambda>r. row_id r \<noteq> uuid_String e (uuid_calls s)) (nutrition_scans (db s))
      = nutrition_scans (db s)"
    by (simp add: filter_id_conv)
  from p pend have "i \<in> set (issued_ids outs)" unfolding pending_issued_def by blast
  with new have differ: "uuid_String e (uuid_calls s) \<noteq> i" by blast
  from confirm_saved_info [where data = data and i = i and s = s and e = e and w = w,
      OF idv pend ok] saved
  have info: "\<exists>info. GetNutritionalInfo i (db s') = Some info \<and> ID info = i" by auto
  from idv pend rows keep differ new info
  show "\<exists>i img. data ''id'' = Some (JString i) \<and> tempImageData s i = Some (Bytes img) \<and>
          nutrition_scans (db s') = nutrition_scans (db s) @
            [\<lparr>row_id = uuid_String e (uuid_calls s), row_image_data = img,
              row_status = ''completed'', row_error = [],
              row_created_at = Now w, row_updated_at = Now w\<rparr>] \<and>
          uuid_String e (uuid_calls s) \<noteq> i \<and>
          uuid_String e (uuid_calls s) \<notin> set (issued_ids outs) \<and>
          (\<exists>info. GetNutritionalInfo i (db s') = Some info \<and> ID info = i)"
    by auto
qed




theorem scan_record_ids_witness:
  "\<exists>s'. handleConfirmScan utc_env calm after_session (map_of confirm_data)
       = (s', [Msg ''scan_saved'' Nil]) \<and>
     nutrition_scans (db s') =
       [\<lparr>row_id = ''uu'', row_image_data = [104, 105], row_status = ''completed'',
         row_error = [], row_created_at = 1000, row_updated_at = 1000\<rparr>] \<and>
     set (map row_id (nutrition_scans (db s'))) \<inter> {''u''} = {}"
proof -
  obtain s' out where r: "handleConfirmScan utc_env calm after_session (map_of confirm_data)
      = (s', out)"
    by (cases "handleConfirmScan utc_env calm after_session (map_of confirm_data)")
  have "snd (handleConfirmScan utc_env calm after_session (map_of confirm_data))
      = [Msg ''scan_saved'' Nil]"
    by (simp add: confirm_hit(2) [where i = "''u''" and img = "[104, 105]"] confirm_data_def
        after_session_def calm_def)
  with r have saved: "handleConfirmScan utc_env calm after_session (map_of confirm_data)
      = (s', [Msg ''scan_saved'' Nil])" by simp
  have old: "\<forall>row \<in> set (nutrition_scans empty_db). row_id row \<notin> range (uuid_String utc_env)"
    by (simp add: empty_db_def)
  from scan_record_ids [OF utc_uuid_inj old session_run] saved
  obtain i img where "tempImageData after_session i = Some (Bytes img)"
    and "map_of confirm_data ''id'' = Some (JString i)"
    and rows: "nutrition_scans (db s') = nutrition_scans (db after_session) @
        [\<lparr>row_id = uuid_String utc_env (uuid_calls after_session), row_image_data = img,
          row_status = ''completed'', row_error = [],
          row_created_at = Now calm, row_updated_at = Now calm\<rparr>]"
    by blast
  then have "i = ''u''" and "img = [104, 105]"
    by (simp_all add: confirm_data_def after_session_def)
  with rows have "nutrition_scans (db s') =
       [\<lparr>row_id = ''uu'', row_image_data = [104, 105], row_status = ''completed'',
         row_error = [], row_created_at = 1000, row_updated_at = 1000\<rparr>]"
    by (simp add: after_session_def empty_db_def utc_env_def calm_def numeral_2_eq_2)
  with saved show ?thesis by simp
qed


end
